theory Spec2Isabelle
  imports Main
begin

section \<open>Python values\<close>

text \<open>
  A Python \<^verbatim>\<open>str\<close> is a sequence of Unicode code points: \<^verbatim>\<open>len\<close>, slicing and
  iteration all count code points, and the program's literals hold CJK characters.
  A string is therefore a list of code point numbers.
\<close>

type_synonym pystr = "nat list"

definition ascii :: "string \<Rightarrow> pystr" where
  "ascii s = map of_char s"

text \<open>
  \<^verbatim>\<open>str.isspace\<close> for one code point: the whitespace table of CPython
  (\<^verbatim>\<open>\t \n \v \f \r\<close>, the separators U+001C..U+001F, the space, NEL, NBSP and the
  Unicode space separators).
\<close>

definition isspace :: "nat \<Rightarrow> bool" where
  "isspace c =
     (c \<in> set [9, 10, 11, 12, 13, 28, 29, 30, 31, 32, 133, 160, 5760,
                8232, 8233, 8239, 8287, 12288]
      \<or> (8192 \<le> c \<and> c \<le> 8202))"

text \<open>
  \<^verbatim>\<open>str.isalnum\<close> for one code point. On ASCII it holds of the digits and the letters.
  Beyond ASCII it is read from the Unicode character database, which is not part of
  the program: the table is the parameter \<open>A\<close> of every function that needs it.
\<close>

definition isalnum :: "(nat \<Rightarrow> bool) \<Rightarrow> nat \<Rightarrow> bool" where
  "isalnum A c =
     (if c < 128 then (48 \<le> c \<and> c \<le> 57) \<or> (65 \<le> c \<and> c \<le> 90) \<or> (97 \<le> c \<and> c \<le> 122)
      else A c)"

text \<open>\<^verbatim>\<open>s.strip()\<close>: leading and trailing whitespace removed.\<close>

definition strip :: "pystr \<Rightarrow> pystr" where
  "strip s = rev (dropWhile isspace (rev (dropWhile isspace s)))"

text \<open>\<^verbatim>\<open>s.startswith(p)\<close>.\<close>

definition startswith :: "pystr \<Rightarrow> pystr \<Rightarrow> bool" where
  "startswith s p = (take (length p) s = p)"

text \<open>\<^verbatim>\<open>k in s\<close> for two strings: \<open>k\<close> occurs in \<open>s\<close> as a contiguous run.\<close>

fun str_in :: "pystr \<Rightarrow> pystr \<Rightarrow> bool" where
  "str_in k [] = (k = [])"
| "str_in k (c # cs) = (startswith (c # cs) k \<or> str_in k cs)"

text \<open>
  \<^verbatim>\<open>s.split(' ', 1)\<close>: at most one split, at the first space character (U+0020 only);
  the result has one part when \<open>s\<close> holds no space and two parts otherwise.
\<close>

definition split_space :: "pystr \<Rightarrow> pystr list" where
  "split_space s =
     (if 32 \<in> set s
      then [takeWhile (\<lambda>c. c \<noteq> 32) s, tl (dropWhile (\<lambda>c. c \<noteq> 32) s)]
      else [s])"

text \<open>
  The values a decoded JSON payload can hold under a key, as far as the handlers tell
  them apart: a string; another hashable value (number, boolean, null); an unhashable
  one (list, object), on which a dictionary lookup raises \<^verbatim>\<open>TypeError\<close>.
\<close>

datatype pyval = PyStr pystr | PyHashable | PyUnhashable

text \<open>
  The event payload \<^verbatim>\<open>data\<close>: not a dictionary at all, or a dictionary with the keys
  \<^verbatim>\<open>'username'\<close> and \<^verbatim>\<open>'message'\<close> present or absent.
\<close>

datatype pydata = NotDict | Dict (d_username: "pyval option") (d_message: "pyval option")

text \<open>
  A dictionary keeps its keys in insertion order; assigning to a key it holds keeps
  the key's place. \<^verbatim>\<open>list(d.keys())\<close> and the scan of \<^verbatim>\<open>d.items()\<close> depend on that
  order, so a dictionary is an association list.
\<close>

type_synonym ('k, 'v) dict = "('k \<times> 'v) list"

definition dict_keys :: "('k, 'v) dict \<Rightarrow> 'k list" where
  "dict_keys d = map fst d"

definition dict_has :: "('k, 'v) dict \<Rightarrow> 'k \<Rightarrow> bool" where
  "dict_has d k = (k \<in> set (dict_keys d))"

definition dict_get :: "('k, 'v) dict \<Rightarrow> 'k \<Rightarrow> 'v option" where
  "dict_get d k = map_of d k"

primrec dict_set :: "('k, 'v) dict \<Rightarrow> 'k \<Rightarrow> 'v \<Rightarrow> ('k, 'v) dict" where
  "dict_set [] k v = [(k, v)]"
| "dict_set (p # ps) k v = (if fst p = k then (k, v) # ps else p # dict_set ps k v)"

definition dict_del :: "('k, 'v) dict \<Rightarrow> 'k \<Rightarrow> ('k, 'v) dict" where
  "dict_del d k = filter (\<lambda>p. fst p \<noteq> k) d"

section \<open>The shared state\<close>

type_synonym sid = nat
type_synonym timestamp = string

record user_info =
  sid :: sid
  joined_at :: timestamp

datatype msg_type = System | Text | Movie | AiChat | AiReply

datatype special = Url pystr | Question pystr

text \<open>
  An entry of \<^verbatim>\<open>chat_history\<close>. The welcome and error messages carry no
  \<^verbatim>\<open>'username'\<close> key, and only user messages carry \<^verbatim>\<open>'special_data'\<close> (which may be
  \<^verbatim>\<open>None\<close>); an absent key and \<^verbatim>\<open>None\<close> are both \<open>None\<close> here.
\<close>

record chat_msg =
  m_type :: msg_type
  m_username :: "pystr option"
  m_message :: pystr
  m_timestamp :: timestamp
  m_special_data :: "special option"

record state =
  online_users :: "(pystr, user_info) dict"
  chat_history :: "chat_msg list"

definition init :: state where
  "init = \<lparr>online_users = [], chat_history = []\<rparr>"

text \<open>
  \<^verbatim>\<open>chat_history.append(m); if len(chat_history) > 100: chat_history.pop(0)\<close>, the
  block each handler runs under \<^verbatim>\<open>socketio.lock\<close>. The attribute \<^verbatim>\<open>lock\<close> belongs to
  the Socket.IO library, not to the program: it is taken to be a lock that is acquired
  and released without raising. Handlers run one at a time here, so the block is atomic.
\<close>

definition history_append :: "chat_msg list \<Rightarrow> chat_msg \<Rightarrow> chat_msg list" where
  "history_append h m = (let h' = h @ [m] in if length h' > 100 then tl h' else h')"

section \<open>What a handler does to the transport\<close>

text \<open>
  The texts of the \<^verbatim>\<open>error\<close> notices, in the order they stand in the source:
  the join request is not a dictionary with a user name, the user name is empty, the join
  failed, the sender must join first, sending failed.
\<close>

datatype notice = InvalidJoinRequest | EmptyUsername | JoinFailed | JoinFirst | SendFailed

text \<open>
  Where an \<^verbatim>\<open>emit\<close> goes: the requesting connection (no \<^verbatim>\<open>room\<close>, no \<^verbatim>\<open>broadcast\<close>),
  one connection (\<^verbatim>\<open>room=\<close> a session id), every connection (\<^verbatim>\<open>broadcast=True\<close>), every
  connection but the requesting one (\<^verbatim>\<open>include_self=False\<close>), the room \<^verbatim>\<open>'chat_room'\<close>.
\<close>

datatype target = ToSender | ToSid sid | ToAll | ToOthers | ToChatRoom

datatype payload =
    ConnectAck
  | ErrorNotice notice
  | Kicked
  | History "chat_msg list"
  | UserJoined pystr "pystr list" chat_msg
  | UserLeft pystr "pystr list"
  | NewMessage chat_msg

datatype effect = Emit payload target | JoinRoom | LeaveRoom

section \<open>The literals of the program\<close>

text \<open>
  The characters the user-name filter tests with \<^verbatim>\<open>c in ' _\u4e00-\u9fa5'\<close>. For a
  one-character \<open>c\<close> the test is membership in the five characters of that literal:
  space, underscore, U+4E00, the hyphen and U+9FA5.
\<close>

definition name_chars :: pystr where
  "name_chars = [32, 95, 19968, 45, 40869]"

text \<open>The command prefixes \<^verbatim>\<open>'@'\<close> + "movie" and \<^verbatim>\<open>'@'\<close> + the assistant's name.\<close>

definition cmd_movie :: pystr where
  "cmd_movie = [64, 30005, 24433]"

definition cmd_ai :: pystr where
  "cmd_ai = [64, 24029, 23567, 20892]"

definition ai_name :: pystr where
  "ai_name = [24029, 23567, 20892]"

definition movie_usage :: pystr where
  "movie_usage =
     [35831, 25552, 20379, 30005, 24433, 85, 82, 76, 65292, 26684, 24335, 65306, 64,
      30005, 24433, 32, 60, 117, 114, 108, 62]"

definition ai_usage :: pystr where
  "ai_usage =
     [35831, 25552, 20379, 35201, 38382, 24029, 23567, 20892, 30340, 38382, 39064, 65292,
      26684, 24335, 65306, 64, 24029, 23567, 20892, 32, 60, 38382, 39064, 62]"

definition ai_unavailable :: pystr where
  "ai_unavailable =
     [65, 73, 21161, 25163, 26242, 26102, 26080, 27861, 21709, 24212, 65292, 35831, 31245,
      21518, 20877, 35797]"

text \<open>The welcome text: a greeting, the user name, and "has joined the chat room".\<close>

definition welcome_text :: "pystr \<Rightarrow> pystr" where
  "welcome_text username =
     [27426, 36814, 32] @ username @ [32, 21152, 20837, 32842, 22825, 23460, 65281]"

text \<open>The keyword lists of the assistant, in the order of its \<^verbatim>\<open>elif\<close> chain.\<close>

definition kw_intro :: "pystr list" where
  "kw_intro =
     [[20320, 26159, 35841], [20320, 26159], [20171, 32461], [21517, 23383], [23567, 32654]]"

definition kw_school :: "pystr list" where
  "kw_school =
     [[24029, 20892, 22823], [22235, 24029, 20892, 19994, 22823, 23398], [23398, 26657],
      [22312, 21738, 37324], [22320, 22336]]"

definition kw_address :: "pystr list" where
  "kw_address = [[22320, 22336], [22312, 21738, 37324]]"

definition kw_majors :: "pystr list" where
  "kw_majors = [[19987, 19994], [23398, 31185], [23398, 38498]]"

definition kw_history :: "pystr list" where
  "kw_history = [[21382, 21490], [25104, 31435], [21019, 24314], [22810, 23569, 24180]]"

definition kw_campus :: "pystr list" where
  "kw_campus = [[29983, 27963], [23487, 33293], [39135, 22530], [26657, 22253]]"

definition kw_admission :: "pystr list" where
  "kw_admission = [[25307, 29983], [20998, 25968, 32447], [25253, 32771], [24405, 21462]]"

text \<open>The canned answers, as the code points of the source's literals.\<close>

definition reply_intro :: pystr where
  "reply_intro =
     [20320, 22909, 126, 25105, 26159, 24029, 23567, 20892, 65292, 26159, 36825, 20010,
      65, 109, 97, 122, 105, 110, 103, 32842, 22825, 23460, 19987, 23646, 30340, 65, 73,
      21161, 25163, 65292, 23567, 21517, 21483, 23567, 32654, 65281, 25105, 26159,
      22235, 24029, 20892, 19994, 22823, 23398, 30340, 65, 73, 23567, 21161, 25163,
      65292, 24615, 21035, 26159, 22899, 12290, 25105, 30340, 20027, 35201, 21151,
      33021, 26159, 25509, 25910, 29992, 25143, 25552, 38382, 65292, 22238, 31572,
      19982, 22235, 24029, 20892, 19994, 22823, 23398, 26377, 20851, 30340, 38382,
      39064, 12290, 26377, 20219, 20309, 20851, 20110, 24029, 20892, 22823, 30340,
      38382, 39064, 37117, 21487, 20197, 38543, 26102, 38382, 25105, 21734, 65281]"

definition reply_address :: pystr where
  "reply_address =
     [22235, 24029, 20892, 19994, 22823, 23398, 26377, 19977, 20010, 26657, 21306,
      65306, 38597, 23433, 26657, 21306, 20301, 20110, 22235, 24029, 30465, 38597,
      23433, 24066, 38632, 22478, 21306, 26032, 24247, 36335, 52, 54, 21495, 65307,
      25104, 37117, 26657, 21306, 20301, 20110, 25104, 37117, 24066, 28201, 27743,
      21306, 24800, 27665, 36335, 50, 49, 49, 21495, 65307, 37117, 27743, 22576, 26657,
      21306, 20301, 20110, 25104, 37117, 24066, 37117, 27743, 22576, 24066, 24314,
      35774, 36335, 50, 56, 56, 21495, 12290]"

definition reply_school :: pystr where
  "reply_school =
     [22235, 24029, 20892, 19994, 22823, 23398, 26159, 22269, 23478, 34, 21452, 19968,
      27969, 34, 24314, 35774, 39640, 26657, 65292, 20063, 26159, 22269, 23478, 34, 50,
      49, 49, 24037, 31243, 34, 37325, 28857, 24314, 35774, 22823, 23398, 12290, 23398,
      26657, 26377, 38597, 23433, 12289, 25104, 37117, 21644, 37117, 27743, 22576,
      19977, 20010, 26657, 21306, 65292, 23398, 31185, 28085, 30422, 20892, 23398,
      12289, 29702, 23398, 12289, 24037, 23398, 12289, 32463, 27982, 23398, 12289,
      31649, 29702, 23398, 31561, 22810, 20010, 39046, 22495, 12290]"

definition reply_majors :: pystr where
  "reply_majors =
     [22235, 24029, 20892, 19994, 22823, 23398, 35774, 26377, 20892, 23398, 38498,
      12289, 21160, 29289, 31185, 25216, 23398, 38498, 12289, 26519, 23398, 38498,
      12289, 22253, 33402, 23398, 38498, 12289, 36164, 28304, 23398, 38498, 31561,
      22810, 20010, 23398, 38498, 12290, 20248, 21183, 23398, 31185, 21253, 25324,
      20316, 29289, 23398, 12289, 30044, 29287, 23398, 12289, 20861, 21307, 23398,
      12289, 26519, 23398, 12289, 20892, 26519, 32463, 27982, 31649, 29702, 31561,
      12290, 23398, 26657, 26377, 22810, 20010, 22269, 23478, 32423, 21644, 30465,
      32423, 37325, 28857, 23398, 31185, 12290]"

definition reply_history :: pystr where
  "reply_history =
     [22235, 24029, 20892, 19994, 22823, 23398, 21069, 36523, 26159, 49, 57, 48, 54,
      24180, 21019, 21150, 30340, 22235, 24029, 36890, 30465, 20892, 19994, 23398,
      22530, 65292, 49, 57, 51, 53, 24180, 25104, 20026, 30465, 31435, 22235, 24029,
      22823, 23398, 20892, 23398, 38498, 65292, 49, 57, 53, 54, 24180, 36801, 33267,
      38597, 23433, 29420, 31435, 24314, 26657, 20026, 22235, 24029, 20892, 23398,
      38498, 65292, 49, 57, 56, 53, 24180, 26356, 21517, 20026, 22235, 24029, 20892,
      19994, 22823, 23398, 12290, 23398, 26657, 33267, 20170, 24050, 26377, 19968,
      30334, 22810, 24180, 30340, 21150, 23398, 21382, 21490, 12290]"

definition reply_campus :: pystr where
  "reply_campus =
     [22235, 24029, 20892, 19994, 22823, 23398, 21508, 26657, 21306, 29615, 22659,
      20248, 32654, 65292, 35774, 26045, 23436, 21892, 12290, 23398, 29983, 23487,
      33293, 25552, 20379, 33391, 22909, 30340, 20303, 23487, 26465, 20214, 65292,
      37197, 26377, 31354, 35843, 12289, 29420, 31435, 21355, 29983, 38388, 31561,
      35774, 26045, 12290, 23398, 26657, 39135, 22530, 33756, 21697, 20016, 23500,
      22810, 26679, 65292, 33021, 22815, 28385, 36275, 19981, 21516, 23398, 29983,
      30340, 39278, 39135, 38656, 27714, 12290, 26657, 22253, 20869, 36824, 26377,
      22270, 20070, 39302, 12289, 20307, 32946, 39302, 12289, 23454, 39564, 23460,
      31561, 21508, 31867, 23398, 20064, 21644, 29983, 27963, 35774, 26045, 12290]"

definition reply_admission :: pystr where
  "reply_admission =
     [22235, 24029, 20892, 19994, 22823, 23398, 27599, 24180, 38754, 21521, 20840,
      22269, 25307, 29983, 65292, 20855, 20307, 30340, 25307, 29983, 35745, 21010,
      12289, 20998, 25968, 32447, 21644, 25253, 32771, 35201, 27714, 21487, 20197,
      20851, 27880, 23398, 26657, 23448, 26041, 32593, 31449, 25110, 25307, 29983,
      21150, 20844, 23460, 21457, 24067, 30340, 26368, 26032, 20449, 24687, 12290,
      23398, 26657, 25552, 20379, 26412, 31185, 12289, 30805, 22763, 12289, 21338,
      22763, 31561, 22810, 23618, 27425, 30340, 25945, 32946, 39033, 30446, 12290]"

definition reply_unknown_pre :: pystr where
  "reply_unknown_pre =
     [24863, 35874, 20320, 30340, 25552, 38382, 65281, 20851, 20110, 34]"

definition reply_unknown_post :: pystr where
  "reply_unknown_post =
     [34, 65292, 25105, 36824, 22312, 23398, 20064, 20013, 12290, 19981, 36807, 25105,
      21487, 20197, 22238, 31572, 22235, 24029, 20892, 19994, 22823, 23398, 30340,
      30456, 20851, 38382, 39064, 65292, 27604, 22914, 23398, 26657, 21382, 21490,
      12289, 19987, 19994, 35774, 32622, 12289, 26657, 22253, 29615, 22659, 31561,
      12290, 20320, 26377, 20160, 20040, 20851, 20110, 24029, 20892, 22823, 30340,
      38382, 39064, 24819, 38382, 25105, 21527, 65311]"

section \<open>The HTTP routes\<close>

text \<open>
  The two lines that clean a user name, the same in \<^verbatim>\<open>chat\<close> and in \<^verbatim>\<open>handle_join\<close>:
  \<^verbatim>\<open>username.strip()[:30]\<close>, then the characters kept by
  \<^verbatim>\<open>c.isalnum() or c in ' _\u4e00-\u9fa5'\<close>.
\<close>

definition clean_username :: "(nat \<Rightarrow> bool) \<Rightarrow> pystr \<Rightarrow> pystr" where
  "clean_username A username =
     filter (\<lambda>c. isalnum A c \<or> c \<in> set name_chars) (take 30 (strip username))"

text \<open>
  \<^verbatim>\<open>chat\<close>: the query parameter \<^verbatim>\<open>username\<close> is a string or absent. The page is
  rendered with the cleaned name (the \<^verbatim>\<open>server\<close> parameter is passed through untouched
  and left out).
\<close>

datatype page = RedirectIndex | RenderChat pystr

definition chat :: "(nat \<Rightarrow> bool) \<Rightarrow> pystr option \<Rightarrow> page" where
  "chat A arg =
     (case arg of
        None \<Rightarrow> RedirectIndex
      | Some username \<Rightarrow>
          if username = [] \<or> strip username = [] then RedirectIndex
          else RenderChat (clean_username A username))"

text \<open>
  \<^verbatim>\<open>check_username\<close>: the name comes from the query string (a string, \<^verbatim>\<open>''\<close> when
  absent) or from a JSON body (any value). A value that is not a string has no
  \<^verbatim>\<open>strip\<close>: the handler answers with its error response, status 500. The route
  assigns to nothing, so the state it returns is the state it was given.
\<close>

datatype check_response = CheckResult (taken: bool) (available: bool) | CheckError

definition check_username :: "pyval option \<Rightarrow> state \<Rightarrow> state \<times> check_response" where
  "check_username arg s =
     (case (case arg of None \<Rightarrow> PyStr [] | Some v \<Rightarrow> v) of
        PyStr raw \<Rightarrow>
          (let username = strip raw;
               is_taken = dict_has (online_users s) username
           in (s, CheckResult is_taken (\<not> is_taken)))
      | PyHashable \<Rightarrow> (s, CheckError)
      | PyUnhashable \<Rightarrow> (s, CheckError))"

section \<open>The Socket.IO handlers\<close>

text \<open>
  A handler takes the requesting connection's \<^verbatim>\<open>request.sid\<close>, the payload, the
  readings of \<^verbatim>\<open>datetime.now()\<close> it makes (already formatted) and the state; it
  returns the new state and the calls it made to the transport, in order. An \<^verbatim>\<open>emit\<close>
  enqueues the event and returns; its delivery is the transport's business.
\<close>

definition handle_connect :: "sid \<Rightarrow> state \<Rightarrow> state \<times> effect list" where
  "handle_connect rsid s = (s, [Emit ConnectAck ToSender])"

text \<open>
  \<^verbatim>\<open>handle_disconnect\<close>: the loop stops at the first entry bound to the connection;
  \<^verbatim>\<open>if username_to_remove:\<close> then tests the name found for truth, and the empty
  string is false.
\<close>

definition handle_disconnect :: "sid \<Rightarrow> state \<Rightarrow> state \<times> effect list" where
  "handle_disconnect rsid s =
     (case find (\<lambda>(username, user_info). sid user_info = rsid) (online_users s) of
        None \<Rightarrow> (s, [])
      | Some (username_to_remove, user_info) \<Rightarrow>
          if username_to_remove \<noteq> [] then
            (let users = dict_del (online_users s) username_to_remove
             in (s\<lparr>online_users := users\<rparr>,
                 [Emit (UserLeft username_to_remove (dict_keys users)) ToOthers]))
          else (s, []))"

definition handle_join ::
  "(nat \<Rightarrow> bool) \<Rightarrow> sid \<Rightarrow> pydata \<Rightarrow> timestamp \<Rightarrow> timestamp \<Rightarrow> state \<Rightarrow> state \<times> effect list"
where
  "handle_join A rsid data now_joined now_msg s =
     (case data of
        NotDict \<Rightarrow> (s, [Emit (ErrorNotice InvalidJoinRequest) ToSender])
      | Dict None msg \<Rightarrow> (s, [Emit (ErrorNotice InvalidJoinRequest) ToSender])
      | Dict (Some PyHashable) msg \<Rightarrow> (s, [Emit (ErrorNotice EmptyUsername) ToSender])
      | Dict (Some PyUnhashable) msg \<Rightarrow> (s, [Emit (ErrorNotice EmptyUsername) ToSender])
      | Dict (Some (PyStr raw)) msg \<Rightarrow>
          if raw = [] \<or> length (strip raw) = 0
          then (s, [Emit (ErrorNotice EmptyUsername) ToSender])
          else
            (let username = clean_username A raw;
                 kick =
                   (case dict_get (online_users s) username of
                      None \<Rightarrow> []
                    | Some old \<Rightarrow>
                        if sid old \<noteq> rsid then [Emit Kicked (ToSid (sid old))] else []);
                 users = dict_set (online_users s) username
                           \<lparr>sid = rsid, joined_at = now_joined\<rparr>;
                 welcome_msg =
                   \<lparr>m_type = System, m_username = None,
                    m_message = welcome_text username, m_timestamp = now_msg,
                    m_special_data = None\<rparr>;
                 history = history_append (chat_history s) welcome_msg
             in (\<lparr>online_users = users, chat_history = history\<rparr>,
                 kick @
                 [JoinRoom,
                  Emit (History history) ToSender,
                  Emit (UserJoined username (dict_keys users) welcome_msg) ToAll])))"

text \<open>
  The assistant's answer (the \<^verbatim>\<open>if\<close>/\<^verbatim>\<open>elif\<close> chain over \<^verbatim>\<open>question = parts[1].strip()\<close>);
  the last answer quotes \<^verbatim>\<open>parts[1]\<close> itself.
\<close>

definition any_in :: "pystr list \<Rightarrow> pystr \<Rightarrow> bool" where
  "any_in keywords question = list_ex (\<lambda>keyword. str_in keyword question) keywords"

definition ai_response_message :: "pystr \<Rightarrow> pystr" where
  "ai_response_message part =
     (let question = strip part in
      if any_in kw_intro question then reply_intro
      else if any_in kw_school question then
        (if any_in kw_address question then reply_address else reply_school)
      else if any_in kw_majors question then reply_majors
      else if any_in kw_history question then reply_history
      else if any_in kw_campus question then reply_campus
      else if any_in kw_admission question then reply_admission
      else reply_unknown_pre @ part @ reply_unknown_post)"

text \<open>
  Whether the \<^verbatim>\<open>try\<close> block that computes the assistant's answer raises. Nothing in it
  can raise on a string, so the fault is an input of the handler: \<open>Raises\<close> is an
  exception before the answer is built, which the block's \<^verbatim>\<open>except\<close> catches.
\<close>

datatype responder = Responds | Raises

text \<open>
  The length cap: \<^verbatim>\<open>if len(message) > 500: message = message[:500] + '...'\<close>.
\<close>

definition cap_message :: "pystr \<Rightarrow> pystr" where
  "cap_message message = (if length message > 500 then take 500 message @ ascii ''...'' else message)"

text \<open>
  \<^verbatim>\<open>handle_message\<close> from the length cap on: \<open>message0\<close> is the trimmed, non-empty
  text and \<open>username\<close> a registered name.
\<close>

definition post_message ::
  "sid \<Rightarrow> pystr \<Rightarrow> pystr \<Rightarrow> timestamp \<Rightarrow> timestamp \<Rightarrow> responder \<Rightarrow> state \<Rightarrow> state \<times> effect list"
where
  "post_message rsid username message0 now now_ai fault s =
     (let message = cap_message message0;
          (message_type, message', special_data, s', sent) =
            (if startswith message cmd_movie then
               (let parts = split_space message in
                if length parts > 1 then
                  (let movie_url = strip (parts ! 1);
                       movie_url' =
                         (if \<not> (startswith movie_url (ascii ''http://'')
                                 \<or> startswith movie_url (ascii ''https://''))
                          then ascii ''http://'' @ movie_url else movie_url)
                   in (Movie, message, Some (Url movie_url'), s, []))
                else (Text, movie_usage, None, s, []))
             else if startswith message cmd_ai then
               (let parts = split_space message in
                if length parts > 1 then
                  (case fault of
                     Responds \<Rightarrow>
                       (let ai_response =
                              \<lparr>m_type = AiReply, m_username = Some ai_name,
                               m_message = ai_response_message (parts ! 1),
                               m_timestamp = now_ai, m_special_data = None\<rparr>
                        in (AiChat, message, Some (Question (parts ! 1)),
                            s\<lparr>chat_history := history_append (chat_history s) ai_response\<rparr>,
                            [Emit (NewMessage ai_response) ToChatRoom]))
                   | Raises \<Rightarrow>
                       (let error_msg =
                              \<lparr>m_type = System, m_username = None,
                               m_message = ai_unavailable, m_timestamp = now,
                               m_special_data = None\<rparr>
                        in (AiChat, message, Some (Question (parts ! 1)), s,
                            [Emit (NewMessage error_msg) (ToSid rsid)])))
                else (Text, ai_usage, None, s, []))
             else (Text, message, None, s, []));
          msg_obj =
            \<lparr>m_type = message_type, m_username = Some username, m_message = message',
             m_timestamp = now, m_special_data = special_data\<rparr>
      in (s'\<lparr>chat_history := history_append (chat_history s') msg_obj\<rparr>,
          sent @ [Emit (NewMessage msg_obj) ToChatRoom]))"

text \<open>
  \<^verbatim>\<open>handle_message\<close>. A payload that lacks a key is dropped in silence; a user name that
  is not a key of \<^verbatim>\<open>online_users\<close> gets the "join first" notice; an unhashable one
  makes the lookup raise, and the outer \<^verbatim>\<open>except\<close> sends the "sending failed" notice;
  a message that is not a non-blank string is dropped in silence.
\<close>

definition handle_message ::
  "sid \<Rightarrow> pydata \<Rightarrow> timestamp \<Rightarrow> timestamp \<Rightarrow> responder \<Rightarrow> state \<Rightarrow> state \<times> effect list"
where
  "handle_message rsid data now now_ai fault s =
     (case data of
        NotDict \<Rightarrow> (s, [])
      | Dict None msg \<Rightarrow> (s, [])
      | Dict (Some u) None \<Rightarrow> (s, [])
      | Dict (Some PyUnhashable) (Some msg) \<Rightarrow> (s, [Emit (ErrorNotice SendFailed) ToSender])
      | Dict (Some PyHashable) (Some msg) \<Rightarrow> (s, [Emit (ErrorNotice JoinFirst) ToSender])
      | Dict (Some (PyStr username)) (Some msg) \<Rightarrow>
          if \<not> dict_has (online_users s) username
          then (s, [Emit (ErrorNotice JoinFirst) ToSender])
          else
            (case msg of
               PyStr message \<Rightarrow>
                 if message = [] \<or> strip message = [] then (s, [])
                 else post_message rsid username (strip message) now now_ai fault s
             | PyHashable \<Rightarrow> (s, [])
             | PyUnhashable \<Rightarrow> (s, [])))"

text \<open>
  \<^verbatim>\<open>handle_leave\<close>: the name is looked up as the payload gives it; an unhashable one
  makes the lookup raise, and the \<^verbatim>\<open>except\<close> only logs.
\<close>

definition handle_leave :: "sid \<Rightarrow> pydata \<Rightarrow> state \<Rightarrow> state \<times> effect list" where
  "handle_leave rsid data s =
     (case data of
        NotDict \<Rightarrow> (s, [])
      | Dict None msg \<Rightarrow> (s, [])
      | Dict (Some PyHashable) msg \<Rightarrow> (s, [])
      | Dict (Some PyUnhashable) msg \<Rightarrow> (s, [])
      | Dict (Some (PyStr username)) msg \<Rightarrow>
          if dict_has (online_users s) username then
            (let users = dict_del (online_users s) username
             in (s\<lparr>online_users := users\<rparr>,
                 [LeaveRoom, Emit (UserLeft username (dict_keys users)) ToOthers]))
          else (s, []))"

section \<open>Runs of the server\<close>

datatype event =
    Connect sid
  | Disconnect sid
  | Join sid pydata timestamp timestamp
  | SendMessage sid pydata timestamp timestamp responder
  | Leave sid pydata

fun handle :: "(nat \<Rightarrow> bool) \<Rightarrow> state \<Rightarrow> event \<Rightarrow> state \<times> effect list" where
  "handle A s (Connect rsid) = handle_connect rsid s"
| "handle A s (Disconnect rsid) = handle_disconnect rsid s"
| "handle A s (Join rsid data t1 t2) = handle_join A rsid data t1 t2 s"
| "handle A s (SendMessage rsid data t1 t2 fault) = handle_message rsid data t1 t2 fault s"
| "handle A s (Leave rsid data) = handle_leave rsid data s"

definition step :: "(nat \<Rightarrow> bool) \<Rightarrow> state \<Rightarrow> event \<Rightarrow> state" where
  "step A s e = fst (handle A s e)"

definition run :: "(nat \<Rightarrow> bool) \<Rightarrow> state \<Rightarrow> event list \<Rightarrow> state" where
  "run A s es = foldl (step A) s es"

section \<open>Notions the properties are stated with\<close>

text \<open>The sessions the registry holds under one display name.\<close>

definition sessions_named :: "state \<Rightarrow> pystr \<Rightarrow> (pystr \<times> user_info) list" where
  "sessions_named s name = filter (\<lambda>p. fst p = name) (online_users s)"

text \<open>A connection has joined when some session is bound to it.\<close>

definition has_session :: "state \<Rightarrow> sid \<Rightarrow> bool" where
  "has_session s c = list_ex (\<lambda>p. sid (snd p) = c) (online_users s)"

text \<open>The payload's user name is a string that is a key of the registry.\<close>

fun registered :: "state \<Rightarrow> pyval \<Rightarrow> bool" where
  "registered s (PyStr name) = dict_has (online_users s) name"
| "registered s PyHashable = False"
| "registered s PyUnhashable = False"

text \<open>A run of capped appends, and everything a run of events sends.\<close>

definition append_all :: "chat_msg list \<Rightarrow> chat_msg list \<Rightarrow> chat_msg list" where
  "append_all h ms = foldl history_append h ms"

fun run_effects :: "(nat \<Rightarrow> bool) \<Rightarrow> state \<Rightarrow> event list \<Rightarrow> effect list" where
  "run_effects A s [] = []"
| "run_effects A s (e # es) = snd (handle A s e) @ run_effects A (step A s e) es"

text \<open>
  The chat messages a list of transport calls announces to everybody: the welcome
  message inside \<^verbatim>\<open>user_joined\<close> and each \<^verbatim>\<open>new_message\<close> sent to the room.
\<close>

fun announced :: "effect list \<Rightarrow> chat_msg list" where
  "announced [] = []"
| "announced (Emit (UserJoined name members m) ToAll # xs) = m # announced xs"
| "announced (Emit (NewMessage m) ToChatRoom # xs) = m # announced xs"
| "announced (x # xs) = announced xs"

fun is_kicked :: "effect \<Rightarrow> bool" where
  "is_kicked (Emit Kicked t) = True"
| "is_kicked x = False"

text \<open>
  The characters the specification allows in a display name: alphanumerics, the space,
  the underscore and the CJK ideographs U+4E00..U+9FA5.
\<close>

definition name_char_ok :: "(nat \<Rightarrow> bool) \<Rightarrow> nat \<Rightarrow> bool" where
  "name_char_ok A c = (isalnum A c \<or> c = 32 \<or> c = 95 \<or> (19968 \<le> c \<and> c \<le> 40869))"

subsection \<open>Inputs of the examples\<close>

text \<open>
  A table for the examples: of the code points beyond ASCII it knows the CJK Unified
  Ideographs only.
\<close>

definition sample_table :: "nat \<Rightarrow> bool" where
  "sample_table c = (19968 \<le> c \<and> c \<le> 40959)"

definition join_as :: "sid \<Rightarrow> string \<Rightarrow> event" where
  "join_as c name =
     Join c (Dict (Some (PyStr (ascii name))) None) ''2026-01-01 12:00:00'' ''12:00:00''"

definition says :: "pystr \<Rightarrow> pystr \<Rightarrow> pydata" where
  "says name body = Dict (Some (PyStr name)) (Some (PyStr body))"

section \<open>Dictionaries\<close>

lemma ascii_simps: "ascii [] = []" "ascii (c # cs) = of_char c # ascii cs"
  by (simp_all add: ascii_def)

lemma dict_keys_dict_set:
  "dict_keys (dict_set d k v) = (if k \<in> set (dict_keys d) then dict_keys d else dict_keys d @ [k])"
  by (induction d) (auto simp: dict_keys_def)

lemma distinct_dict_set:
  "distinct (dict_keys d) \<Longrightarrow> distinct (dict_keys (dict_set d k v))"
  by (simp add: dict_keys_dict_set)

lemma distinct_dict_del:
  "distinct (dict_keys d) \<Longrightarrow> distinct (dict_keys (dict_del d k))"
  by (simp add: dict_keys_def dict_del_def distinct_map_filter)

lemma dict_get_dict_set: "dict_get (dict_set d k v) k = Some v"
  by (induction d) (auto simp: dict_get_def)

lemma dict_del_absent: "\<not> dict_has (dict_del d k) k"
  by (auto simp: dict_has_def dict_keys_def dict_del_def)

section \<open>The registry along a run\<close>

lemma handle_disconnect_users:
  "online_users (fst (handle_disconnect rsid s)) = online_users s \<or>
   (\<exists>k. online_users (fst (handle_disconnect rsid s)) = dict_del (online_users s) k)"
  by (auto simp: handle_disconnect_def Let_def split: option.splits prod.splits)

lemma handle_leave_users:
  "online_users (fst (handle_leave rsid data s)) = online_users s \<or>
   (\<exists>k. online_users (fst (handle_leave rsid data s)) = dict_del (online_users s) k)"
  by (auto simp: handle_leave_def Let_def split: pydata.splits option.splits pyval.splits)

lemma handle_join_users:
  "online_users (fst (handle_join A rsid data t1 t2 s)) = online_users s \<or>
   (\<exists>k v. online_users (fst (handle_join A rsid data t1 t2 s)) = dict_set (online_users s) k v)"
  by (auto simp: handle_join_def Let_def split: pydata.splits option.splits pyval.splits)

lemma post_message_users:
  "online_users (fst (post_message rsid u m t1 t2 f s)) = online_users s"
  by (auto simp: post_message_def Let_def split: responder.splits prod.splits)

lemma handle_message_users:
  "online_users (fst (handle_message rsid data t1 t2 f s)) = online_users s"
  by (auto simp: handle_message_def post_message_users split: pydata.splits option.splits pyval.splits)

lemma step_distinct:
  assumes "distinct (dict_keys (online_users s))"
  shows "distinct (dict_keys (online_users (step A s e)))"
proof (cases e)
  case (Connect c)
  with assms show ?thesis by (simp add: step_def handle_connect_def)
next
  case (Disconnect c)
  with assms handle_disconnect_users[of c s] show ?thesis
    by (auto simp: step_def distinct_dict_del)
next
  case (Join c data t1 t2)
  with assms handle_join_users[of A c data t1 t2 s] show ?thesis
    by (auto simp: step_def distinct_dict_set)
next
  case (SendMessage c data t1 t2 f)
  with assms show ?thesis by (simp add: step_def handle_message_users)
next
  case (Leave c data)
  with assms handle_leave_users[of c data s] show ?thesis
    by (auto simp: step_def distinct_dict_del)
qed

lemma run_distinct:
  "distinct (dict_keys (online_users s)) \<Longrightarrow> distinct (dict_keys (online_users (run A s es)))"
  by (induction es arbitrary: s) (simp_all add: run_def step_distinct)

lemma filter_key_absent:
  "k \<notin> set (dict_keys d) \<Longrightarrow> filter (\<lambda>p. fst p = k) d = []"
  by (auto simp: dict_keys_def filter_empty_conv)

lemma distinct_keys_at_most_one:
  "distinct (dict_keys d) \<Longrightarrow> length (filter (\<lambda>p. fst p = k) d) \<le> 1"
proof (induction d)
  case Nil
  then show ?case by simp
next
  case (Cons p d)
  then show ?case using filter_key_absent[of k d] by (auto simp: dict_keys_def)
qed

lemma distinct_keys_exactly_one:
  "distinct (dict_keys d) \<Longrightarrow> k \<in> set (dict_keys d) \<Longrightarrow> length (filter (\<lambda>p. fst p = k) d) = 1"
proof (induction d)
  case Nil
  then show ?case by (simp add: dict_keys_def)
next
  case (Cons p d)
  then show ?case using filter_key_absent[of k d] by (auto simp: dict_keys_def)
qed

section \<open>Name uniqueness\<close>

text \<open>
  C1. After every sequence of events, starting from the empty server, the registry holds
  at most one session under any display name. A join whose cleaned name is already
  registered leaves the list of names as it was and binds the name's one entry to the
  joining connection.
\<close>

theorem name_uniqueness:
  assumes "s = run A init es"
  shows "length (sessions_named s name) \<le> 1 \<and>
         (raw \<noteq> [] \<and> strip raw \<noteq> [] \<and> dict_has (online_users s) (clean_username A raw) \<longrightarrow>
            (let s' = step A s (Join rsid (Dict (Some (PyStr raw)) msg) t1 t2) in
               dict_keys (online_users s') = dict_keys (online_users s) \<and>
               dict_get (online_users s') (clean_username A raw) = Some \<lparr>sid = rsid, joined_at = t1\<rparr> \<and>
               length (sessions_named s' (clean_username A raw)) = 1))"
proof -
  have d: "distinct (dict_keys (online_users s))"
    unfolding assms by (rule run_distinct) (simp add: init_def dict_keys_def)
  have one: "length (sessions_named s name) \<le> 1"
    using distinct_keys_at_most_one[OF d, of name] by (simp add: sessions_named_def)
  have re: "dict_keys (online_users s') = dict_keys (online_users s) \<and>
            dict_get (online_users s') (clean_username A raw) = Some \<lparr>sid = rsid, joined_at = t1\<rparr> \<and>
            length (sessions_named s' (clean_username A raw)) = 1"
    if ok: "raw \<noteq> []" "strip raw \<noteq> []" "dict_has (online_users s) (clean_username A raw)"
      and s': "s' = step A s (Join rsid (Dict (Some (PyStr raw)) msg) t1 t2)" for s'
  proof -
    have u: "online_users s' =
        dict_set (online_users s) (clean_username A raw) \<lparr>sid = rsid, joined_at = t1\<rparr>"
      using ok s' by (simp add: step_def handle_join_def Let_def)
    have k: "dict_keys (online_users s') = dict_keys (online_users s)"
      using ok(3) by (simp add: u dict_keys_dict_set dict_has_def)
    have g: "dict_get (online_users s') (clean_username A raw) = Some \<lparr>sid = rsid, joined_at = t1\<rparr>"
      by (simp add: u dict_get_dict_set)
    have "length (filter (\<lambda>p. fst p = clean_username A raw) (online_users s')) = 1"
      using distinct_keys_exactly_one[of "online_users s'" "clean_username A raw"] d ok(3) k
      by (simp add: dict_has_def)
    with k g show ?thesis by (simp add: sessions_named_def)
  qed
  show ?thesis using one re by (simp add: Let_def)
qed

theorem name_uniqueness_witness:
  "length (sessions_named (run sample_table init [join_as 1 ''Alice'']) (ascii ''Alice'')) \<le> 1 \<and>
   dict_has (online_users (run sample_table init [join_as 1 ''Alice''])) (clean_username sample_table (ascii ''Alice'')) \<and>
   online_users (step sample_table (run sample_table init [join_as 1 ''Alice'']) (join_as 2 ''Alice'')) =
     [(ascii ''Alice'', \<lparr>sid = 2, joined_at = ''2026-01-01 12:00:00''\<rparr>)]"
  using name_uniqueness[of "run sample_table init [join_as 1 ''Alice'']" sample_table "[join_as 1 ''Alice'']"
      "ascii ''Alice''" "ascii ''Alice''" 2 None "''2026-01-01 12:00:00''" "''12:00:00''"]
  by (simp add: run_def step_def join_as_def handle_join_def init_def Let_def clean_username_def
      strip_def isspace_def isalnum_def name_chars_def ascii_simps dict_get_def dict_has_def dict_keys_def
      sessions_named_def)

section \<open>The bounded log\<close>

lemma history_append_last:
  "history_append (drop (length xs - 100) xs) m = drop (length (xs @ [m]) - 100) (xs @ [m])"
proof (cases "length xs < 100")
  case True
  then show ?thesis by (simp add: history_append_def)
next
  case False
  define n where "n = length xs - 100"
  have n: "n < length xs" "length xs - n = 100" "Suc (length xs) - 100 = Suc n"
    using False unfolding n_def by arith+
  have ne: "drop n xs \<noteq> []"
    using n(1) by simp
  have "history_append (drop n xs) m = tl (drop n xs @ [m])"
    using n(2) by (simp add: history_append_def Let_def)
  also have "\<dots> = tl (drop n xs) @ [m]"
    using ne by (rule tl_append2)
  also have "tl (drop n xs) = drop (Suc n) xs"
    by (simp only: drop_Suc tl_drop)
  finally have l: "history_append (drop n xs) m = drop (Suc n) xs @ [m]" .
  have "drop (length (xs @ [m]) - 100) (xs @ [m]) = drop (Suc n) (xs @ [m])"
    using n(3) by simp
  also have "\<dots> = drop (Suc n) xs @ [m]"
    using n(1) by simp
  finally show ?thesis using l unfolding n_def by simp
qed

lemma append_all_last:
  "append_all (drop (length xs - 100) xs) ms = drop (length (xs @ ms) - 100) (xs @ ms)"
proof (induction ms arbitrary: xs)
  case Nil
  then show ?case by (simp add: append_all_def)
next
  case (Cons m ms)
  have "append_all (drop (length xs - 100) xs) (m # ms) =
        append_all (drop (length (xs @ [m]) - 100) (xs @ [m])) ms"
    by (simp add: append_all_def history_append_last del: length_append)
  also have "\<dots> = drop (length ((xs @ [m]) @ ms) - 100) ((xs @ [m]) @ ms)"
    by (rule Cons.IH)
  finally show ?case by simp
qed

lemma append_all_append: "append_all h (a @ b) = append_all (append_all h a) b"
  by (simp add: append_all_def)

lemma announced_append: "announced (xs @ ys) = announced xs @ announced ys"
  by (induction xs rule: announced.induct) simp_all

lemma handle_join_history:
  "chat_history (fst (handle_join A rsid data t1 t2 s)) =
     append_all (chat_history s) (announced (snd (handle_join A rsid data t1 t2 s)))"
  by (simp add: handle_join_def Let_def append_all_def announced_append
      split: pydata.splits option.splits pyval.splits)

lemma post_message_history:
  "chat_history (fst (post_message rsid u m t1 t2 f s)) =
     append_all (chat_history s) (announced (snd (post_message rsid u m t1 t2 f s)))"
  by (simp add: post_message_def Let_def append_all_def announced_append
      split: responder.splits)

lemma handle_message_history:
  "chat_history (fst (handle_message rsid data t1 t2 f s)) =
     append_all (chat_history s) (announced (snd (handle_message rsid data t1 t2 f s)))"
  by (simp add: handle_message_def post_message_history split: pydata.splits option.splits pyval.splits)
   (simp add: append_all_def)

lemma handle_history:
  "chat_history (fst (handle A s e)) = append_all (chat_history s) (announced (snd (handle A s e)))"
proof (cases e)
  case (Connect c)
  then show ?thesis by (simp add: handle_connect_def append_all_def)
next
  case (Disconnect c)
  then show ?thesis
    by (simp add: handle_disconnect_def append_all_def Let_def split: option.splits prod.splits)
next
  case (Join c data t1 t2)
  then show ?thesis by (simp add: handle_join_history)
next
  case (SendMessage c data t1 t2 f)
  then show ?thesis by (simp add: handle_message_history)
next
  case (Leave c data)
  then show ?thesis
    by (simp add: handle_leave_def append_all_def Let_def split: pydata.splits option.splits pyval.splits)
qed

lemma run_history:
  "chat_history (run A s es) = append_all (chat_history s) (announced (run_effects A s es))"
proof (induction es arbitrary: s)
  case Nil
  then show ?case by (simp add: run_def append_all_def)
next
  case (Cons e es)
  have "chat_history (run A s (e # es)) = chat_history (run A (step A s e) es)"
    by (simp add: run_def)
  also have "\<dots> = append_all (chat_history (step A s e)) (announced (run_effects A (step A s e) es))"
    by (rule Cons.IH)
  also have "chat_history (step A s e) = append_all (chat_history s) (announced (snd (handle A s e)))"
    by (simp add: step_def handle_history)
  finally show ?case by (simp add: announced_append append_all_append)
qed

text \<open>
  C2. The log of a run is the run of capped appends of the messages the handlers
  announced (the welcome of each join, each classified message, each assistant reply), in
  the order they were announced; it never holds more than 100 entries; and a run of
  capped appends from the empty log keeps exactly the last 100 (or fewer) of the appended
  messages in their order, so eviction is from the head only.
\<close>

theorem log_bound:
  "chat_history (run A init es) = append_all [] (announced (run_effects A init es)) \<and>
   length (chat_history (run A init es)) \<le> 100 \<and>
   length (append_all [] ms) \<le> 100 \<and>
   append_all [] ms = drop (length ms - 100) ms"
proof -
  have last: "append_all [] xs = drop (length xs - 100) xs" for xs
    using append_all_last[of "[]" xs] by simp
  have len: "length (append_all [] xs) \<le> 100" for xs
    by (simp add: last)
  have "chat_history (run A init es) = append_all [] (announced (run_effects A init es))"
    using run_history[of A init es] by (simp add: init_def)
  then show ?thesis using last len by simp
qed

section \<open>Evaluating the examples\<close>

lemmas example_defs =
  run_def step_def join_as_def says_def init_def Let_def ascii_simps
  clean_username_def strip_def isspace_def isalnum_def name_chars_def
  dict_get_def dict_has_def dict_keys_def dict_del_def
  history_append_def welcome_text_def

section \<open>Who may send\<close>

text \<open>
  C3, as amended. A \<^verbatim>\<open>send_message\<close> whose payload has both keys and whose user name is
  not a registered name is rejected whatever connection sends it: the state (registry and
  log) is returned unchanged and the only call to the transport is one \<^verbatim>\<open>error\<close> notice
  to the requesting connection (the "join first" notice, or the "sending failed" notice
  when the name is unhashable), so nothing reaches the room.
\<close>

theorem unregistered_sender_rejected:
  assumes "\<not> registered s u"
  shows "handle_message rsid (Dict (Some u) (Some m)) now now_ai fault s =
           (s, [Emit (ErrorNotice (if u = PyUnhashable then SendFailed else JoinFirst)) ToSender])"
  using assms by (cases u) (simp_all add: handle_message_def)

text \<open>The rejection at work: nobody has joined, and a message signed Alice arrives.\<close>

theorem unregistered_sender_rejected_witness:
  "\<not> registered init (PyStr (ascii ''Alice'')) \<and>
   handle_message 2 (says (ascii ''Alice'') (ascii ''hi'')) ''12:00:05'' ''12:00:06'' Responds init =
     (init, [Emit (ErrorNotice JoinFirst) ToSender])"
  using unregistered_sender_rejected[of init "PyStr (ascii ''Alice'')" 2 "PyStr (ascii ''hi'')"
      "''12:00:05''" "''12:00:06''" Responds]
  by (simp add: says_def init_def dict_has_def dict_keys_def)

text \<open>
  C3 as it is written fails: the handler looks the payload's name up and never looks at the
  connection. Alice has joined from connection 1; connection 2 holds no session, signs
  its message Alice, and the message is appended to the log and sent to the room.
\<close>

theorem unjoined_sender_counterexample:
  "\<not> has_session (run sample_table init [join_as 1 ''Alice'']) 2 \<and>
   chat_history (run sample_table init [join_as 1 ''Alice'']) =
     [\<lparr>m_type = System, m_username = None, m_message = welcome_text (ascii ''Alice''),
       m_timestamp = ''12:00:00'', m_special_data = None\<rparr>] \<and>
   handle_message 2 (says (ascii ''Alice'') (ascii ''hi'')) ''12:00:05'' ''12:00:06'' Responds
       (run sample_table init [join_as 1 ''Alice'']) =
     (\<lparr>online_users = [(ascii ''Alice'', \<lparr>sid = 1, joined_at = ''2026-01-01 12:00:00''\<rparr>)],
       chat_history =
         [\<lparr>m_type = System, m_username = None, m_message = welcome_text (ascii ''Alice''),
           m_timestamp = ''12:00:00'', m_special_data = None\<rparr>,
          \<lparr>m_type = Text, m_username = Some (ascii ''Alice''), m_message = ascii ''hi'',
           m_timestamp = ''12:00:05'', m_special_data = None\<rparr>]\<rparr>,
      [Emit (NewMessage
          \<lparr>m_type = Text, m_username = Some (ascii ''Alice''), m_message = ascii ''hi'',
           m_timestamp = ''12:00:05'', m_special_data = None\<rparr>) ToChatRoom])"
  by (simp add: example_defs has_session_def handle_join_def handle_message_def post_message_def
      cap_message_def startswith_def cmd_movie_def cmd_ai_def)

section \<open>Joining a name that is held\<close>

lemma dict_get_dict_set_other: "n \<noteq> k \<Longrightarrow> dict_get (dict_set d k v) n = dict_get d n"
  by (induction d) (auto simp: dict_get_def)

lemma dict_get_Some_has: "dict_get d k = Some v \<Longrightarrow> dict_has d k"
  by (auto simp: dict_get_def dict_has_def dict_keys_def dest: map_of_SomeD intro: rev_image_eqI)

text \<open>
  C4, as amended. A join (with a non-blank name) whose cleaned name is registered binds
  the name to the joining connection, with the time of this join; the names of the
  registry and the entries of the other names stay as they were. When the name was bound
  to another connection, exactly one \<^verbatim>\<open>kicked\<close> notice is sent, to that connection;
  when it was bound to the joining connection itself, none is sent. In both cases the
  join goes on like any other: a welcome event is appended to the log, and after the
  \<^verbatim>\<open>kicked\<close> notice (if any) the connection joins the room, the history is replayed to
  it and \<^verbatim>\<open>user_joined\<close>, with the unchanged list of names and the welcome event, is sent
  to everybody.
\<close>

theorem rejoin_supersedes:
  assumes "raw \<noteq> []" and "strip raw \<noteq> []"
    and "dict_get (online_users s) (clean_username A raw) = Some old"
    and "s' = fst (handle_join A rsid (Dict (Some (PyStr raw)) msg) t1 t2 s)"
    and "sent = snd (handle_join A rsid (Dict (Some (PyStr raw)) msg) t1 t2 s)"
  shows "dict_get (online_users s') (clean_username A raw) = Some \<lparr>sid = rsid, joined_at = t1\<rparr> \<and>
         dict_keys (online_users s') = dict_keys (online_users s) \<and>
         (n \<noteq> clean_username A raw \<longrightarrow> dict_get (online_users s') n = dict_get (online_users s) n) \<and>
         filter is_kicked sent = (if sid old = rsid then [] else [Emit Kicked (ToSid (sid old))]) \<and>
         chat_history s' =
           history_append (chat_history s)
             \<lparr>m_type = System, m_username = None,
              m_message = welcome_text (clean_username A raw), m_timestamp = t2,
              m_special_data = None\<rparr> \<and>
         sent =
           (if sid old = rsid then [] else [Emit Kicked (ToSid (sid old))]) @
           [JoinRoom,
            Emit (History (chat_history s')) ToSender,
            Emit (UserJoined (clean_username A raw) (dict_keys (online_users s))
                \<lparr>m_type = System, m_username = None,
                 m_message = welcome_text (clean_username A raw), m_timestamp = t2,
                 m_special_data = None\<rparr>) ToAll]"
proof -
  have u: "online_users s' =
      dict_set (online_users s) (clean_username A raw) \<lparr>sid = rsid, joined_at = t1\<rparr>"
    using assms(1,2,4) by (simp add: handle_join_def Let_def)
  have has: "clean_username A raw \<in> set (dict_keys (online_users s))"
    using dict_get_Some_has[OF assms(3)] by (simp add: dict_has_def)
  have keys: "dict_keys (online_users s') = dict_keys (online_users s)"
    using has by (simp add: u dict_keys_dict_set)
  have k: "filter is_kicked sent = (if sid old = rsid then [] else [Emit Kicked (ToSid (sid old))])"
    using assms(1,2,3,5) by (simp add: handle_join_def Let_def)
  have h: "chat_history s' =
      history_append (chat_history s)
        \<lparr>m_type = System, m_username = None,
         m_message = welcome_text (clean_username A raw), m_timestamp = t2,
         m_special_data = None\<rparr>"
    using assms(1,2,4) by (simp add: handle_join_def Let_def)
  have e: "sent =
      (if sid old = rsid then [] else [Emit Kicked (ToSid (sid old))]) @
      [JoinRoom,
       Emit (History (chat_history s')) ToSender,
       Emit (UserJoined (clean_username A raw) (dict_keys (online_users s'))
           \<lparr>m_type = System, m_username = None,
            m_message = welcome_text (clean_username A raw), m_timestamp = t2,
            m_special_data = None\<rparr>) ToAll]"
    using assms(1,2,3) unfolding assms(4,5) by (simp add: handle_join_def Let_def)
  have g: "dict_get (online_users s') (clean_username A raw) = Some \<lparr>sid = rsid, joined_at = t1\<rparr>"
    by (simp add: u dict_get_dict_set)
  have o: "n \<noteq> clean_username A raw \<longrightarrow> dict_get (online_users s') n = dict_get (online_users s) n"
    by (simp add: u dict_get_dict_set_other)
  from e have e': "sent =
      (if sid old = rsid then [] else [Emit Kicked (ToSid (sid old))]) @
      [JoinRoom,
       Emit (History (chat_history s')) ToSender,
       Emit (UserJoined (clean_username A raw) (dict_keys (online_users s))
           \<lparr>m_type = System, m_username = None,
            m_message = welcome_text (clean_username A raw), m_timestamp = t2,
            m_special_data = None\<rparr>) ToAll]"
    unfolding keys .
  show ?thesis
    using g keys o k h e' by blast
qed

text \<open>Alice has joined from connection 1 and joins again, from connection 2 and from 1.\<close>

theorem rejoin_supersedes_witness:
  "dict_get (online_users (run sample_table init [join_as 1 ''Alice''])) (clean_username sample_table (ascii ''Alice'')) =
     Some \<lparr>sid = 1, joined_at = ''2026-01-01 12:00:00''\<rparr> \<and>
   dict_get (online_users (fst (handle sample_table (run sample_table init [join_as 1 ''Alice'']) (join_as 2 ''Alice''))))
       (ascii ''Alice'') = Some \<lparr>sid = 2, joined_at = ''2026-01-01 12:00:00''\<rparr> \<and>
   dict_keys (online_users (fst (handle sample_table (run sample_table init [join_as 1 ''Alice'']) (join_as 2 ''Alice'')))) =
     [ascii ''Alice''] \<and>
   filter is_kicked (snd (handle sample_table (run sample_table init [join_as 1 ''Alice'']) (join_as 2 ''Alice''))) =
     [Emit Kicked (ToSid 1)] \<and>
   filter is_kicked (snd (handle sample_table (run sample_table init [join_as 1 ''Alice'']) (join_as 1 ''Alice''))) = []"
  using
    rejoin_supersedes[of "ascii ''Alice''" "run sample_table init [join_as 1 ''Alice'']" sample_table
      "\<lparr>sid = 1, joined_at = ''2026-01-01 12:00:00''\<rparr>"
      "fst (handle sample_table (run sample_table init [join_as 1 ''Alice'']) (join_as 2 ''Alice''))"
      2 None "''2026-01-01 12:00:00''" "''12:00:00''"
      "snd (handle sample_table (run sample_table init [join_as 1 ''Alice'']) (join_as 2 ''Alice''))" "ascii ''Bob''"]
    rejoin_supersedes[of "ascii ''Alice''" "run sample_table init [join_as 1 ''Alice'']" sample_table
      "\<lparr>sid = 1, joined_at = ''2026-01-01 12:00:00''\<rparr>"
      "fst (handle sample_table (run sample_table init [join_as 1 ''Alice'']) (join_as 1 ''Alice''))"
      1 None "''2026-01-01 12:00:00''" "''12:00:00''"
      "snd (handle sample_table (run sample_table init [join_as 1 ''Alice'']) (join_as 1 ''Alice''))" "ascii ''Bob''"]
  by (simp add: example_defs handle_join_def)

text \<open>
  C4 as it is written fails where it calls the second join from the same connection a
  no-op: that join stamps the entry with its own time, appends a second welcome message
  to the log, sends the history to the connection and \<^verbatim>\<open>user_joined\<close> to everybody.
\<close>

theorem rejoin_same_connection_counterexample:
  "dict_get (online_users (run sample_table init [join_as 1 ''Alice''])) (ascii ''Alice'') =
     Some \<lparr>sid = 1, joined_at = ''2026-01-01 12:00:00''\<rparr> \<and>
   handle sample_table (run sample_table init [join_as 1 ''Alice''])
       (Join 1 (Dict (Some (PyStr (ascii ''Alice''))) None) ''2026-01-01 12:05:00'' ''12:05:00'') =
     (\<lparr>online_users = [(ascii ''Alice'', \<lparr>sid = 1, joined_at = ''2026-01-01 12:05:00''\<rparr>)],
       chat_history =
         [\<lparr>m_type = System, m_username = None, m_message = welcome_text (ascii ''Alice''),
           m_timestamp = ''12:00:00'', m_special_data = None\<rparr>,
          \<lparr>m_type = System, m_username = None, m_message = welcome_text (ascii ''Alice''),
           m_timestamp = ''12:05:00'', m_special_data = None\<rparr>]\<rparr>,
      [JoinRoom,
       Emit (History
         [\<lparr>m_type = System, m_username = None, m_message = welcome_text (ascii ''Alice''),
           m_timestamp = ''12:00:00'', m_special_data = None\<rparr>,
          \<lparr>m_type = System, m_username = None, m_message = welcome_text (ascii ''Alice''),
           m_timestamp = ''12:05:00'', m_special_data = None\<rparr>]) ToSender,
       Emit (UserJoined (ascii ''Alice'') [ascii ''Alice'']
          \<lparr>m_type = System, m_username = None, m_message = welcome_text (ascii ''Alice''),
           m_timestamp = ''12:05:00'', m_special_data = None\<rparr>) ToAll])"
  by (simp add: example_defs handle_join_def)

section \<open>Leaving\<close>

text \<open>
  C10. A \<^verbatim>\<open>leave\<close> whose payload names a registered session removes that session and
  sends \<^verbatim>\<open>user_left\<close>, with the names that remain, to every other connection. The
  requesting connection \<open>rsid\<close> is arbitrary and the result does not mention it: the
  handler never compares it with the connection the name is bound to.
\<close>

theorem leave_any_connection:
  assumes "dict_has (online_users s) username"
  shows "handle_leave rsid (Dict (Some (PyStr username)) msg) s =
           (s\<lparr>online_users := dict_del (online_users s) username\<rparr>,
            [LeaveRoom,
             Emit (UserLeft username (dict_keys (dict_del (online_users s) username))) ToOthers]) \<and>
         \<not> dict_has (dict_del (online_users s) username) username"
  using assms by (simp add: handle_leave_def Let_def dict_del_absent)

text \<open>Alice is bound to connection 1; connection 2 asks for her to leave.\<close>

theorem leave_any_connection_witness:
  "dict_get (online_users (run sample_table init [join_as 1 ''Alice''])) (ascii ''Alice'') =
     Some \<lparr>sid = 1, joined_at = ''2026-01-01 12:00:00''\<rparr> \<and>
   dict_has (online_users (run sample_table init [join_as 1 ''Alice''])) (ascii ''Alice'') \<and>
   handle_leave 2 (Dict (Some (PyStr (ascii ''Alice''))) None) (run sample_table init [join_as 1 ''Alice'']) =
     (\<lparr>online_users = [],
       chat_history =
         [\<lparr>m_type = System, m_username = None, m_message = welcome_text (ascii ''Alice''),
           m_timestamp = ''12:00:00'', m_special_data = None\<rparr>]\<rparr>,
      [LeaveRoom, Emit (UserLeft (ascii ''Alice'') []) ToOthers])"
  using leave_any_connection[of "run sample_table init [join_as 1 ''Alice'']" "ascii ''Alice''" 2 None]
  by (simp add: example_defs handle_join_def)


section \<open>Cleaning the user name\<close>

text \<open>
  What the cleaning does ensure: a trimmed name that is empty is refused, the cleaned
  name has at most 30 characters, and each of them is one the specification allows or
  the hyphen.
\<close>

lemma join_blank_rejected:
  "strip raw = [] \<Longrightarrow>
   handle_join A rsid (Dict (Some (PyStr raw)) msg) t1 t2 s = (s, [Emit (ErrorNotice EmptyUsername) ToSender])"
  by (simp add: handle_join_def)

lemma clean_username_chars:
  "c \<in> set (clean_username A raw) \<Longrightarrow> name_char_ok A c \<or> c = 45"
  by (auto simp: clean_username_def name_char_ok_def name_chars_def)

lemma clean_username_length: "length (clean_username A raw) \<le> 30"
proof -
  have "length (clean_username A raw) \<le> length (take 30 (strip raw))"
    unfolding clean_username_def by (rule length_filter_le)
  then show ?thesis by simp
qed

text \<open>
  C5. The handler tests for the empty name after trimming and before the filter, and
  not again after it. On the name \<^verbatim>\<open>'!!!'\<close> the cleaned name is empty, and the join
  succeeds: a session is registered under the empty name, the welcome is logged and
  \<^verbatim>\<open>user_joined\<close> is sent; no \<^verbatim>\<open>error\<close> notice is.
\<close>

theorem join_symbols_only_registers_empty_name:
  "clean_username A (ascii ''!!!'') = [] \<and>
   handle_join A 1 (Dict (Some (PyStr (ascii ''!!!''))) None) ''2026-01-01 12:00:00'' ''12:00:00'' init =
     (\<lparr>online_users = [([], \<lparr>sid = 1, joined_at = ''2026-01-01 12:00:00''\<rparr>)],
       chat_history =
         [\<lparr>m_type = System, m_username = None, m_message = welcome_text [],
           m_timestamp = ''12:00:00'', m_special_data = None\<rparr>]\<rparr>,
      [JoinRoom,
       Emit (History
         [\<lparr>m_type = System, m_username = None, m_message = welcome_text [],
           m_timestamp = ''12:00:00'', m_special_data = None\<rparr>]) ToSender,
       Emit (UserJoined [] [[]]
          \<lparr>m_type = System, m_username = None, m_message = welcome_text [],
           m_timestamp = ''12:00:00'', m_special_data = None\<rparr>) ToAll])"
  by (simp add: example_defs handle_join_def)

text \<open>
  C7. The hyphen is not a character the specification allows, yet the filter keeps it: it
  is one of the five characters of the literal the filter tests membership in. The name
  \<^verbatim>\<open>'a-b'\<close> is stored by the join, and rendered by the chat page, as it is.
\<close>

theorem join_keeps_hyphen:
  "\<not> name_char_ok A 45 \<and>
   clean_username A (ascii ''a-b'') = ascii ''a-b'' \<and>
   dict_keys (online_users (fst (handle_join A 1 (Dict (Some (PyStr (ascii ''a-b''))) None)
      ''2026-01-01 12:00:00'' ''12:00:00'' init))) = [ascii ''a-b''] \<and>
   chat A (Some (ascii ''a-b'')) = RenderChat (ascii ''a-b'')"
  by (simp add: example_defs handle_join_def chat_def name_char_ok_def)

section \<open>The availability query\<close>

text \<open>
  C9, as amended. The query answers for the name with its surrounding whitespace trimmed:
  it reports the name available exactly when the registry holds no session under the
  trimmed name. It returns the state it was given, whatever the argument.
\<close>

theorem check_username_trimmed:
  "check_username (Some (PyStr raw)) s =
     (s, CheckResult (dict_has (online_users s) (strip raw)) (\<not> dict_has (online_users s) (strip raw))) \<and>
   fst (check_username arg s) = s"
  by (simp add: check_username_def Let_def split: option.splits pyval.splits)

text \<open>
  C9 as it is written fails for a name with surrounding whitespace. The join of
  \<^verbatim>\<open>'! Alice'\<close> registers the name \<^verbatim>\<open>' Alice'\<close> (the filter drops the exclamation mark and
  keeps the space); the query for \<^verbatim>\<open>' Alice'\<close> looks \<^verbatim>\<open>'Alice'\<close> up and reports the
  name available while a session holds it.
\<close>

theorem check_username_counterexample:
  "dict_has (online_users (run sample_table init [join_as 1 ''! Alice''])) (ascii '' Alice'') \<and>
   snd (check_username (Some (PyStr (ascii '' Alice''))) (run sample_table init [join_as 1 ''! Alice''])) =
     CheckResult False True"
  by (simp add: example_defs handle_join_def check_username_def)

section \<open>Commands in messages\<close>

text \<open>
  \<^verbatim>\<open>split(' ', 1)\<close> told by what it does: a text with a space splits at its first
  space, a text with none stays whole. The assistant's prefix excludes the movie prefix.
\<close>

lemma split_space_at:
  "32 \<notin> set cmd \<Longrightarrow> split_space (cmd @ 32 # rest) = [cmd, rest]"
  by (simp add: split_space_def takeWhile_append2 dropWhile_append2
      takeWhile_append dropWhile_append)

lemma split_space_none: "32 \<notin> set s \<Longrightarrow> split_space s = [s]"
  by (simp add: split_space_def)


lemmas message_defs =
  handle_join_def handle_message_def post_message_def cap_message_def startswith_def
  split_space_def cmd_movie_def cmd_ai_def

text \<open>
  C8. Take a message accepted from a registered name whose trimmed, length-capped text
  begins with the movie prefix. When the text has a space, so that it is a first word,
  a space and a rest, the event appended and sent to the room has kind \<open>Movie\<close>, the text
  itself as body, and as attachment the trimmed rest, with \<^verbatim>\<open>http://\<close> put in front unless
  it already starts with \<^verbatim>\<open>http://\<close> or \<^verbatim>\<open>https://\<close>. When the text has no space, the
  event is a \<open>Text\<close> event with the usage instruction and no attachment.
\<close>

theorem movie_command:
  assumes "dict_has (online_users s) username"
    and "raw \<noteq> []" and "strip raw \<noteq> []"
    and "message = cap_message (strip raw)"
    and "startswith message cmd_movie"
  shows "(message = cmd @ 32 # rest \<and> 32 \<notin> set cmd \<longrightarrow>
            handle_message rsid (says username raw) now now_ai fault s =
              (s\<lparr>chat_history := history_append (chat_history s)
                   \<lparr>m_type = Movie, m_username = Some username, m_message = message,
                    m_timestamp = now,
                    m_special_data = Some (Url
                      (if startswith (strip rest) (ascii ''http://'')
                          \<or> startswith (strip rest) (ascii ''https://'')
                       then strip rest else ascii ''http://'' @ strip rest))\<rparr>\<rparr>,
               [Emit (NewMessage
                   \<lparr>m_type = Movie, m_username = Some username, m_message = message,
                    m_timestamp = now,
                    m_special_data = Some (Url
                      (if startswith (strip rest) (ascii ''http://'')
                          \<or> startswith (strip rest) (ascii ''https://'')
                       then strip rest else ascii ''http://'' @ strip rest))\<rparr>) ToChatRoom])) \<and>
         (32 \<notin> set message \<longrightarrow>
            handle_message rsid (says username raw) now now_ai fault s =
              (s\<lparr>chat_history := history_append (chat_history s)
                   \<lparr>m_type = Text, m_username = Some username, m_message = movie_usage,
                    m_timestamp = now, m_special_data = None\<rparr>\<rparr>,
               [Emit (NewMessage
                   \<lparr>m_type = Text, m_username = Some username, m_message = movie_usage,
                    m_timestamp = now, m_special_data = None\<rparr>) ToChatRoom]))"
proof -
  have h: "handle_message rsid (says username raw) now now_ai fault s =
           post_message rsid username (strip raw) now now_ai fault s"
    using assms(1,2,3) by (simp add: handle_message_def says_def)
  have a: "post_message rsid username (strip raw) now now_ai fault s =
       (s\<lparr>chat_history := history_append (chat_history s)
            \<lparr>m_type = Movie, m_username = Some username, m_message = message,
             m_timestamp = now,
             m_special_data = Some (Url
               (if startswith (strip rest) (ascii ''http://'')
                   \<or> startswith (strip rest) (ascii ''https://'')
                then strip rest else ascii ''http://'' @ strip rest))\<rparr>\<rparr>,
        [Emit (NewMessage
            \<lparr>m_type = Movie, m_username = Some username, m_message = message,
             m_timestamp = now,
             m_special_data = Some (Url
               (if startswith (strip rest) (ascii ''http://'')
                   \<or> startswith (strip rest) (ascii ''https://'')
                then strip rest else ascii ''http://'' @ strip rest))\<rparr>) ToChatRoom])"
    if d: "message = cmd @ 32 # rest" "32 \<notin> set cmd"
  proof -
    have sp: "split_space (cap_message (strip raw)) = [cmd, rest]"
      using d assms(4) split_space_at[of cmd rest] by simp
    have st: "startswith (cap_message (strip raw)) cmd_movie"
      using assms(4,5) by simp
    show ?thesis
      unfolding post_message_def Let_def using st sp assms(4) by simp
  qed
  have b: "post_message rsid username (strip raw) now now_ai fault s =
       (s\<lparr>chat_history := history_append (chat_history s)
            \<lparr>m_type = Text, m_username = Some username, m_message = movie_usage,
             m_timestamp = now, m_special_data = None\<rparr>\<rparr>,
        [Emit (NewMessage
            \<lparr>m_type = Text, m_username = Some username, m_message = movie_usage,
             m_timestamp = now, m_special_data = None\<rparr>) ToChatRoom])"
    if d: "32 \<notin> set message"
  proof -
    have sp: "split_space (cap_message (strip raw)) = [cap_message (strip raw)]"
      using d assms(4) split_space_none[of message] by simp
    have st: "startswith (cap_message (strip raw)) cmd_movie"
      using assms(4,5) by simp
    show ?thesis
      unfolding post_message_def Let_def using st sp by simp
  qed
  show ?thesis using h a b by simp
qed

text \<open>
  The specification's example, the prefix followed by \<^verbatim>\<open>vid.example/x\<close>, and the bare
  prefix.
\<close>

theorem movie_command_witness:
  "dict_has (online_users (run sample_table init [join_as 1 ''Bob''])) (ascii ''Bob'') \<and>
   startswith (cap_message (strip (cmd_movie @ ascii '' vid.example/x''))) cmd_movie \<and>
   cap_message (strip (cmd_movie @ ascii '' vid.example/x'')) = cmd_movie @ 32 # ascii ''vid.example/x'' \<and>
   32 \<notin> set cmd_movie \<and>
   snd (handle_message 1 (says (ascii ''Bob'') (cmd_movie @ ascii '' vid.example/x''))
          ''12:00:05'' ''12:00:06'' Responds (run sample_table init [join_as 1 ''Bob''])) =
     [Emit (NewMessage
        \<lparr>m_type = Movie, m_username = Some (ascii ''Bob''),
         m_message = cmd_movie @ ascii '' vid.example/x'', m_timestamp = ''12:00:05'',
         m_special_data = Some (Url (ascii ''http://vid.example/x''))\<rparr>) ToChatRoom] \<and>
   snd (handle_message 1 (says (ascii ''Bob'') cmd_movie)
          ''12:00:05'' ''12:00:06'' Responds (run sample_table init [join_as 1 ''Bob''])) =
     [Emit (NewMessage
        \<lparr>m_type = Text, m_username = Some (ascii ''Bob''), m_message = movie_usage,
         m_timestamp = ''12:00:05'', m_special_data = None\<rparr>) ToChatRoom]"
  using
    movie_command[where s = "run sample_table init [join_as 1 ''Bob'']" and username = "ascii ''Bob''"
      and raw = "cmd_movie @ ascii '' vid.example/x''"
      and message = "cmd_movie @ ascii '' vid.example/x''"
      and cmd = cmd_movie and rest = "ascii ''vid.example/x''" and rsid = 1
      and now = "''12:00:05''" and now_ai = "''12:00:06''" and fault = Responds]
    movie_command[where s = "run sample_table init [join_as 1 ''Bob'']" and username = "ascii ''Bob''"
      and raw = cmd_movie and message = cmd_movie
      and cmd = cmd_movie and rest = "[]" and rsid = 1
      and now = "''12:00:05''" and now_ai = "''12:00:06''" and fault = Responds]
  by (simp add: example_defs message_defs)

section \<open>A failing assistant\<close>





end
